theory Spec2Isabelle
  imports Complex_Main
begin

section \<open>Text primitives of the scraper\<close>

text \<open>
  The scraper of \<^verbatim>\<open>Time_Series_Fetch.py\<close> works on Python \<^verbatim>\<open>str\<close> values. A string
  is modelled as a \<^typ>\<open>string\<close> whose characters are the code points below 256
  (ASCII and Latin-1); the character classes below are Python's on that range.
  Text with code points from 256 on is outside the model.
\<close>

datatype py_error = AttributeError | IndexError | TypeError | ValueError

definition is_upper :: "char \<Rightarrow> bool" where
  "is_upper c =
     (let n = (of_char c :: nat)
      in (65 \<le> n \<and> n \<le> 90) \<or> (192 \<le> n \<and> n \<le> 222 \<and> n \<noteq> 215))"

definition lower_char :: "char \<Rightarrow> char" where
  "lower_char c = (if is_upper c then char_of (of_char c + (32 :: nat)) else c)"

text \<open>\<^verbatim>\<open>s.lower()\<close>\<close>

definition lower :: "string \<Rightarrow> string" where
  "lower s = map lower_char s"

fun starts_with :: "string \<Rightarrow> string \<Rightarrow> bool" where
  "starts_with [] t = True"
| "starts_with (p # ps) [] = False"
| "starts_with (p # ps) (c # cs) = (p = c \<and> starts_with ps cs)"

text \<open>\<^verbatim>\<open>k in t\<close> on two strings: \<open>k\<close> occurs in \<open>t\<close> as a contiguous substring.\<close>

fun str_in :: "string \<Rightarrow> string \<Rightarrow> bool" where
  "str_in k [] = (k = [])"
| "str_in k (c # cs) = (starts_with k (c # cs) \<or> str_in k cs)"

text \<open>\<^verbatim>\<open>any(k in t for k in ks)\<close>\<close>

fun any_in :: "string list \<Rightarrow> string \<Rightarrow> bool" where
  "any_in [] t = False"
| "any_in (k # ks) t = (str_in k t \<or> any_in ks t)"

text \<open>\<^verbatim>\<open>d.get(k, default)\<close> on a dictionary literal, kept as its list of items.\<close>

definition dict_get :: "(string \<times> string) list \<Rightarrow> string \<Rightarrow> string \<Rightarrow> string" where
  "dict_get d k dflt = (case map_of d k of Some v \<Rightarrow> v | None \<Rightarrow> dflt)"

section \<open>Document classifier\<close>

definition thesis_keywords :: "string list" where
  "thesis_keywords =
     [''thesis'', ''dissertation'', ''phd'', ''master'', ''doctoral'', ''graduate'']"

definition book_keywords :: "string list" where
  "book_keywords =
     [''handbook'', ''textbook'', ''manual'', ''guide'', ''introduction to'', ''principles of'']"

definition type_mapping :: "(string \<times> string) list" where
  "type_mapping =
     [(''journal-article'', ''Research Article''),
      (''book'', ''Book''),
      (''book-chapter'', ''Book Chapter''),
      (''proceedings-article'', ''Conference Paper''),
      (''dissertation'', ''Dissertation''),
      (''report'', ''Technical Report'')]"

text \<open>
  \<^verbatim>\<open>_classify_document_type(self, title, abstract, source, crossref_type='')\<close>:
  the thesis test comes first, then the book test, then the CrossRef type code, then
  the source.
\<close>

definition classify_document_type :: "string \<Rightarrow> string \<Rightarrow> string \<Rightarrow> string \<Rightarrow> string" where
  "classify_document_type title abstract source crossref_type =
     (let text = lower (title @ '' '' @ abstract)
      in if any_in thesis_keywords text then
           (if any_in [''phd'', ''doctoral'', ''doctor''] text then ''Dissertation''
            else ''Thesis'')
         else if source = ''Internet Archive'' \<or> any_in book_keywords text then ''Book''
         else if crossref_type \<noteq> [] then dict_get type_mapping crossref_type ''Research Article''
         else if source = ''arXiv'' then ''Preprint''
         else ''Research Article'')"

text \<open>
  \<^verbatim>\<open>_classify_thesis_type(self, title, abstract, degree_type)\<close>: the text searched is
  built from all three arguments.
\<close>

definition classify_thesis_type :: "string \<Rightarrow> string \<Rightarrow> string \<Rightarrow> string" where
  "classify_thesis_type title abstract degree_type =
     (let text = lower (title @ '' '' @ abstract @ '' '' @ degree_type)
      in if any_in [''phd'', ''doctoral'', ''doctor'', ''ph.d''] text then ''Dissertation''
         else if any_in [''master'', ''ms'', ''m.s'', ''ma'', ''m.a''] text then ''Thesis''
         else if any_in [''bachelor'', ''bs'', ''b.s'', ''ba'', ''b.a''] text
              then ''Undergraduate Thesis''
         else ''Thesis'')"

text \<open>
  The claim under test reads the degree string alone. This is that reading, written from
  the specification's words, to be compared with \<^const>\<open>classify_thesis_type\<close>.
\<close>

definition thesis_type_by_degree :: "string \<Rightarrow> string" where
  "thesis_type_by_degree degree_type =
     (let d = lower degree_type
      in if any_in [''phd'', ''doctoral'', ''doctor'', ''ph.d''] d then ''Dissertation''
         else if any_in [''master'', ''ms'', ''m.s'', ''ma'', ''m.a''] d then ''Thesis''
         else if any_in [''bachelor'', ''bs'', ''b.s'', ''ba'', ''b.a''] d
              then ''Undergraduate Thesis''
         else ''Thesis'')"

section \<open>Rows handed to the exporters\<close>

text \<open>
  A row of the result table, as \<^verbatim>\<open>search_database\<close> reads it back from the
  \<^verbatim>\<open>books\<close> table. The text columns hold the strings \<^verbatim>\<open>save_to_database\<close> wrote.
  The exporters use the year cell only through \<^verbatim>\<open>pd.notna\<close> and string formatting, so
  the cell is kept as \<open>None\<close> when pandas reports it missing and as its \<^verbatim>\<open>str()\<close>
  rendering otherwise (\<^verbatim>\<open>2020\<close> in an integer column, \<^verbatim>\<open>2020.0\<close> in a float one).
\<close>

record export_row =
  row_title :: string
  row_authors :: string
  row_year :: "string option"
  row_url :: string
  row_doi :: string
  row_abstract :: string
  row_document_type :: string
  row_journal :: string
  row_publisher :: string
  row_pages :: string
  row_volume :: string
  row_issue :: string
  row_isbn :: string
  row_date_added :: string

section \<open>Zotero export\<close>

definition zotero_type_mapping :: "(string \<times> string) list" where
  "zotero_type_mapping =
     [(''Research Article'', ''journalArticle''),
      (''Book'', ''book''),
      (''Book Chapter'', ''bookSection''),
      (''Conference Paper'', ''conferencePaper''),
      (''Thesis'', ''thesis''),
      (''Dissertation'', ''thesis''),
      (''Preprint'', ''preprint''),
      (''Technical Report'', ''report'')]"

text \<open>
  The dictionary \<^verbatim>\<open>zotero_entry\<close> built for one row in \<^verbatim>\<open>export_to_zotero_csv\<close>,
  as its items in order.
\<close>

definition zotero_entry :: "export_row \<Rightarrow> (string \<times> string) list" where
  "zotero_entry row =
     (let doc_type = row_document_type row;
          zotero_type = dict_get zotero_type_mapping doc_type ''journalArticle''
      in [(''Item Type'', zotero_type),
          (''Title'', row_title row),
          (''Author'', row_authors row),
          (''Year'', (case row_year row of Some y \<Rightarrow> y | None \<Rightarrow> [])),
          (''URL'', row_url row),
          (''Abstract'', row_abstract row),
          (''DOI'', row_doi row),
          (''Publication Title'', row_journal row),
          (''Publisher'', row_publisher row),
          (''Volume'', row_volume row),
          (''Issue'', row_issue row),
          (''Pages'', row_pages row),
          (''ISBN'', row_isbn row),
          (''Date Added'', row_date_added row),
          (''Manual Tags'', ''time series; quantitative analysis'')])"

text \<open>
  The frame \<^verbatim>\<open>export_to_zotero_csv\<close> hands to pandas' \<^verbatim>\<open>to_csv\<close>: one entry per
  row, in the caller's order.
\<close>

definition export_to_zotero_rows :: "export_row list \<Rightarrow> (string \<times> string) list list" where
  "export_to_zotero_rows rows = map zotero_entry rows"

section \<open>Citation key generator\<close>

text \<open>The characters \<^verbatim>\<open>str.split()\<close> treats as whitespace.\<close>

definition is_space :: "char \<Rightarrow> bool" where
  "is_space c =
     (let n = (of_char c :: nat)
      in (9 \<le> n \<and> n \<le> 13) \<or> (28 \<le> n \<and> n \<le> 32) \<or> n = 133 \<or> n = 160)"

text \<open>The class \<^verbatim>\<open>[a-zA-Z]\<close>.\<close>

definition is_ascii_alpha :: "char \<Rightarrow> bool" where
  "is_ascii_alpha c =
     (let n = (of_char c :: nat) in (65 \<le> n \<and> n \<le> 90) \<or> (97 \<le> n \<and> n \<le> 122))"

text \<open>The class \<^verbatim>\<open>\w\<close> of Python's \<^verbatim>\<open>re\<close> on \<^verbatim>\<open>str\<close> patterns.\<close>

definition is_word_char :: "char \<Rightarrow> bool" where
  "is_word_char c =
     (let n = (of_char c :: nat)
      in (48 \<le> n \<and> n \<le> 57) \<or> (65 \<le> n \<and> n \<le> 90) \<or> n = 95 \<or> (97 \<le> n \<and> n \<le> 122) \<or>
         n = 170 \<or> n = 178 \<or> n = 179 \<or> n = 181 \<or> n = 185 \<or> n = 186 \<or>
         n = 188 \<or> n = 189 \<or> n = 190 \<or>
         (192 \<le> n \<and> n \<le> 214) \<or> (216 \<le> n \<and> n \<le> 246) \<or> (248 \<le> n \<and> n \<le> 255))"

text \<open>
  The maximal runs of characters between separators, left to right: skip separators,
  collect a run up to the next separator, repeat.
\<close>

function runs_between :: "(char \<Rightarrow> bool) \<Rightarrow> string \<Rightarrow> string list" where
  "runs_between sep s =
     (case dropWhile sep s of
        [] \<Rightarrow> []
      | c # cs \<Rightarrow> (c # takeWhile (\<lambda>x. \<not> sep x) cs) # runs_between sep (dropWhile (\<lambda>x. \<not> sep x) cs))"
  by pat_completeness auto
termination
proof (relation "measure (\<lambda>(sep, s). length s)")
  show "wf (measure (\<lambda>(sep, s). length s))" by simp
next
  fix sep :: "char \<Rightarrow> bool" and s :: string and c cs
  assume d: "dropWhile sep s = c # cs"
  have "length (dropWhile (\<lambda>x. \<not> sep x) cs) \<le> length cs"
    by (rule length_dropWhile_le)
  also have "length cs < length (dropWhile sep s)"
    using d by simp
  also have "\<dots> \<le> length s"
    by (rule length_dropWhile_le)
  finally show "((sep, dropWhile (\<lambda>x. \<not> sep x) cs), (sep, s)) \<in> measure (\<lambda>(sep, s). length s)"
    by simp
qed

text \<open>\<^verbatim>\<open>s.split()\<close>\<close>

definition split_ws :: "string \<Rightarrow> string list" where
  "split_ws s = runs_between is_space s"

text \<open>\<^verbatim>\<open>str(i)\<close> on an integer.\<close>

definition digit_char :: "int \<Rightarrow> char" where
  "digit_char d = char_of (48 + d)"

function digits :: "int \<Rightarrow> string" where
  "digits n = (if n < 10 then [digit_char n] else digits (n div 10) @ [digit_char (n mod 10)])"
  by pat_completeness auto
termination
  by (relation "measure nat") auto

definition py_str_int :: "int \<Rightarrow> string" where
  "py_str_int i = (if i < 0 then CHR ''-'' # digits (- i) else digits i)"

text \<open>
  \<^verbatim>\<open>re.findall(r'\b[a-zA-Z]{3,}\b', title)\<close>. The anchor \<^verbatim>\<open>\b\<close> holds between two
  positions when exactly one of the neighbouring characters is a word character (the
  outside of the string counts as none); \<open>prev\<close> says whether the character before
  the position is one.
\<close>

definition at_boundary :: "bool \<Rightarrow> string \<Rightarrow> bool" where
  "at_boundary prev s = (prev \<noteq> (case s of [] \<Rightarrow> False | c # _ \<Rightarrow> is_word_char c))"

text \<open>
  One attempt at \<^verbatim>\<open>[a-zA-Z]{3,}\b\<close> at the head of \<open>s\<close>: the greedy quantifier takes
  the whole run of letters and backtracks one letter at a time down to three, and the
  first length at which the closing anchor holds is the match.
\<close>

definition match_word_here :: "string \<Rightarrow> string option" where
  "match_word_here s =
     (let run = takeWhile is_ascii_alpha s
      in case filter (\<lambda>k. at_boundary True (drop k s)) (rev [3 ..< Suc (length run)]) of
           [] \<Rightarrow> None
         | k # _ \<Rightarrow> Some (take k s))"

text \<open>A match has at least three characters, so the scan below moves on.\<close>

lemma match_word_here_length:
  assumes "match_word_here s = Some w"
  shows "3 \<le> length w \<and> length w \<le> length s"
proof -
  let ?run = "takeWhile is_ascii_alpha s"
  let ?ks = "filter (\<lambda>k. at_boundary True (drop k s)) (rev [3 ..< Suc (length ?run)])"
  from assms obtain k ks where ks: "?ks = k # ks" and w: "w = take k s"
    by (auto simp: match_word_here_def Let_def split: list.splits)
  have "k \<in> set ?ks" using ks by simp
  then have "3 \<le> k" "k \<le> length ?run" by auto
  moreover have "length ?run \<le> length s" by (rule length_takeWhile_le)
  ultimately show ?thesis using w by simp
qed

text \<open>
  The scan of \<^verbatim>\<open>findall\<close>: at each position try a match; after a match go on behind
  it, otherwise one character further.
\<close>

function findall_words :: "bool \<Rightarrow> string \<Rightarrow> string list" where
  "findall_words prev [] = []"
| "findall_words prev (c # cs) =
     (if at_boundary prev (c # cs) then
        (case match_word_here (c # cs) of
           Some w \<Rightarrow> w # findall_words True (drop (length w) (c # cs))
         | None \<Rightarrow> findall_words (is_word_char c) cs)
      else findall_words (is_word_char c) cs)"
  by pat_completeness auto
termination
proof (relation "measure (\<lambda>(prev, s). length s)")
  fix prev c cs w
  assume "match_word_here (c # cs) = Some w"
  then have "3 \<le> length w" by (simp add: match_word_here_length)
  then show "((True, drop (length w) (c # cs)), (prev, c # cs)) \<in> measure (\<lambda>(prev, s). length s)"
    by simp
qed simp_all

text \<open>
  The values the parsers hold in \<^verbatim>\<open>year\<close> when they call the key generator: \<^verbatim>\<open>None\<close>,
  an integer, and from the loosely typed sources a string or an empty list that was left
  as it came.
\<close>

datatype py_year = YNone | YInt int | YStr string | YEmptyList

text \<open>Truth value and \<^verbatim>\<open>str()\<close> of such a value.\<close>

definition year_truthy :: "py_year \<Rightarrow> bool" where
  "year_truthy y =
     (case y of YNone \<Rightarrow> False | YInt i \<Rightarrow> i \<noteq> 0 | YStr s \<Rightarrow> s \<noteq> [] | YEmptyList \<Rightarrow> False)"

definition py_str_year :: "py_year \<Rightarrow> string" where
  "py_str_year y =
     (case y of YNone \<Rightarrow> ''None'' | YInt i \<Rightarrow> py_str_int i | YStr s \<Rightarrow> s | YEmptyList \<Rightarrow> ''[]'')"

text \<open>An optional integer year as such a value.\<close>

definition year_value :: "int option \<Rightarrow> py_year" where
  "year_value y = (case y of None \<Rightarrow> YNone | Some i \<Rightarrow> YInt i)"

text \<open>
  \<^verbatim>\<open>_generate_bibtex_key(self, first_author, year, title)\<close>, the value of its
  \<^verbatim>\<open>return\<close> statement.
\<close>

definition generate_bibtex_key :: "string \<Rightarrow> py_year \<Rightarrow> string \<Rightarrow> string" where
  "generate_bibtex_key first_author year title =
     (let author_parts = split_ws first_author;
          author_surname = (if author_parts \<noteq> [] then last author_parts else ''Unknown'');
          author_surname = filter is_ascii_alpha author_surname;
          title_words = findall_words False title;
          title_word = (case title_words of w # _ \<Rightarrow> w | [] \<Rightarrow> ''Title'');
          year_str = (if year_truthy year then py_str_year year else ''Unknown'')
      in author_surname @ year_str @ title_word)"

text \<open>
  The key as the claim under test words it, to be compared with
  \<^const>\<open>generate_bibtex_key\<close>: the surname falls back to \<open>Unknown\<close> whenever the stripped
  token is empty, the title word is the first maximal run of letters of length at least
  three, and every year that is present is rendered.
\<close>

definition generateKey_spec :: "string \<Rightarrow> int option \<Rightarrow> string \<Rightarrow> string" where
  "generateKey_spec firstAuthor year title =
     (let tokens = split_ws firstAuthor;
          stripped = filter is_ascii_alpha (if tokens = [] then [] else last tokens);
          surname = (if stripped = [] then ''Unknown'' else stripped);
          letter_runs = runs_between (\<lambda>c. \<not> is_ascii_alpha c) title;
          titleWord = (case filter (\<lambda>w. 3 \<le> length w) letter_runs of
                         [] \<Rightarrow> ''Title'' | w # _ \<Rightarrow> w);
          yearString = (case year of None \<Rightarrow> ''Unknown'' | Some y \<Rightarrow> py_str_int y)
      in surname @ yearString @ titleWord)"

text \<open>
  The words of a title in the sense of the anchors: the maximal runs of word characters
  (letters, digits, underscore). A run qualifies as a title word when it has at least
  three characters and consists of the letters a-z and A-Z only.
\<close>

definition word_runs :: "string \<Rightarrow> string list" where
  "word_runs s = runs_between (\<lambda>c. \<not> is_word_char c) s"

definition title_word_ok :: "string \<Rightarrow> bool" where
  "title_word_ok w = (3 \<le> length w \<and> list_all is_ascii_alpha w)"

section \<open>RIS export\<close>

definition newline :: char where
  "newline = CHR 0x0A"

text \<open>\<^verbatim>\<open>sep.join(xs)\<close>\<close>

fun join :: "string \<Rightarrow> string list \<Rightarrow> string" where
  "join sep [] = []"
| "join sep [x] = x"
| "join sep (x # y # ys) = x @ sep @ join sep (y # ys)"

text \<open>
  \<^verbatim>\<open>s.split(sep)\<close> with a separator: scan left to right, cut at each occurrence of
  the separator and go on behind it. Python refuses an empty separator; the exporter
  passes \<^verbatim>\<open>', '\<close>.
\<close>

function split_sep :: "string \<Rightarrow> string \<Rightarrow> string \<Rightarrow> string list" where
  "split_sep sep cur [] = [cur]"
| "split_sep sep cur (c # cs) =
     (if sep \<noteq> [] \<and> starts_with sep (c # cs)
      then cur # split_sep sep [] (drop (length sep) (c # cs))
      else split_sep sep (cur @ [c]) cs)"
  by pat_completeness auto
termination
  by (relation "measure (\<lambda>(sep, cur, s). length s)") auto

definition py_split :: "string \<Rightarrow> string \<Rightarrow> string list" where
  "py_split s sep = split_sep sep [] s"

text \<open>The type code chosen in \<^verbatim>\<open>export_to_endnote\<close> from the lowercased document type.\<close>

definition ris_type_code :: "string \<Rightarrow> string" where
  "ris_type_code document_type =
     (let doc_type = lower document_type
      in if str_in ''book'' doc_type then ''BOOK''
         else if str_in ''thesis'' doc_type then ''THES''
         else if str_in ''dissertation'' doc_type then ''THES''
         else if str_in ''conference'' doc_type then ''CONF''
         else ''JOUR'')"

text \<open>
  The list \<^verbatim>\<open>entry\<close> that \<^verbatim>\<open>export_to_endnote\<close> has built for one row when it reaches
  the \<^verbatim>\<open>join\<close>: five leading fields (an empty string in place of the year line when the
  year is missing), one author line per author, the optional fields that are not empty,
  the end tag, and an empty string.
\<close>

definition ris_entry :: "export_row \<Rightarrow> string list" where
  "ris_entry row =
     [''TY  - '' @ ris_type_code (row_document_type row),
      ''TI  - '' @ row_title row,
      (case row_year row of Some y \<Rightarrow> ''PY  - '' @ y | None \<Rightarrow> []),
      ''UR  - '' @ row_url row,
      ''AB  - '' @ row_abstract row] @
     (if row_authors row \<noteq> []
      then map (\<lambda>author. ''AU  - '' @ author) (py_split (row_authors row) '', '')
      else []) @
     (if row_journal row \<noteq> [] then [''JO  - '' @ row_journal row] else []) @
     (if row_publisher row \<noteq> [] then [''PB  - '' @ row_publisher row] else []) @
     (if row_volume row \<noteq> [] then [''VL  - '' @ row_volume row] else []) @
     (if row_issue row \<noteq> [] then [''IS  - '' @ row_issue row] else []) @
     (if row_pages row \<noteq> [] then [''SP  - '' @ row_pages row] else []) @
     (if row_doi row \<noteq> [] then [''DO  - '' @ row_doi row] else []) @
     [''ER  - '', []]"

text \<open>\<^verbatim>\<open>filter(None, entry)\<close>: the strings that are not empty.\<close>

definition ris_lines :: "export_row \<Rightarrow> string list" where
  "ris_lines row = filter (\<lambda>line. line \<noteq> []) (ris_entry row)"

text \<open>
  \<^verbatim>\<open>export_to_endnote\<close>: each entry is its remaining strings joined by line breaks, and
  the entries are joined by line breaks.
\<close>

definition export_to_endnote :: "export_row list \<Rightarrow> string" where
  "export_to_endnote rows = join [newline] (map (\<lambda>row. join [newline] (ris_lines row)) rows)"


text \<open>Two rows for the examples below, both with a year and an empty URL and abstract.\<close>

definition example_row :: export_row where
  "example_row =
     \<lparr>row_title = ''Seasonal ARIMA'', row_authors = ''Jane Doe, John Roe'',
      row_year = Some ''2020'', row_url = [], row_doi = [], row_abstract = [],
      row_document_type = ''Preprint'', row_journal = ''Journal of Forecasting'',
      row_publisher = [], row_pages = [], row_volume = [], row_issue = [],
      row_isbn = [], row_date_added = []\<rparr>"

definition example_row_2 :: export_row where
  "example_row_2 =
     example_row\<lparr>row_title := ''GARCH notes'', row_year := Some ''2021'', row_journal := []\<rparr>"

section \<open>Values the parsers compute with\<close>

text \<open>
  A relevance score is a Python float. Floats are modelled by the real numbers they
  denote; comparisons of floats are exact, so only the two literals the acceptance gates
  compare with need their binary64 values.
\<close>

definition float_0_1 :: real where
  "float_0_1 = 3602879701896397 / 2 ^ 55"

definition float_0_3 :: real where
  "float_0_3 = 5404319552844595 / 2 ^ 54"

text \<open>
  What \<^verbatim>\<open>self._calculate_relevance(title, abstract)\<close> evaluates to in a parser: a score,
  or the exception it raises. The parsers are written against whatever the attribute
  lookup on \<^verbatim>\<open>self\<close> finds, so they take it as an argument.
\<close>

type_synonym scorer = "string \<Rightarrow> string \<Rightarrow> py_error + real"

text \<open>\<^verbatim>\<open>s.strip()\<close>\<close>

definition py_strip :: "string \<Rightarrow> string" where
  "py_strip s = rev (dropWhile is_space (rev (dropWhile is_space s)))"

text \<open>
  \<^verbatim>\<open>int(s)\<close> on a string: whitespace around, an optional sign, decimal digits with
  single underscores between them; anything else is a \<^verbatim>\<open>ValueError\<close>. (The
  interpreter's limit on the number of digits is not modelled.)
\<close>

definition is_int_space :: "char \<Rightarrow> bool" where
  "is_int_space c =
     (let n = (of_char c :: nat) in (9 \<le> n \<and> n \<le> 13) \<or> n = 32 \<or> n = 133 \<or> n = 160)"

definition is_digit :: "char \<Rightarrow> bool" where
  "is_digit c = (let n = (of_char c :: nat) in 48 \<le> n \<and> n \<le> 57)"

fun digits_ok :: "string \<Rightarrow> bool" where
  "digits_ok [] = False"
| "digits_ok [c] = is_digit c"
| "digits_ok (c # d # cs) =
     (is_digit c \<and> (if d = CHR ''_'' then digits_ok cs else digits_ok (d # cs)))"

definition digits_value :: "string \<Rightarrow> int" where
  "digits_value s = foldl (\<lambda>acc c. 10 * acc + (int (of_char c) - 48)) 0 (filter is_digit s)"

definition py_int_of_str :: "string \<Rightarrow> py_error + int" where
  "py_int_of_str s =
     (let t = rev (dropWhile is_int_space (rev (dropWhile is_int_space s)));
          negative = (case t of c # _ \<Rightarrow> c = CHR ''-'' | [] \<Rightarrow> False);
          body = (case t of c # cs \<Rightarrow> if c = CHR ''-'' \<or> c = CHR ''+'' then cs else t | [] \<Rightarrow> [])
      in if digits_ok body
         then Inr (if negative then - digits_value body else digits_value body)
         else Inl ValueError)"

text \<open>\<^verbatim>\<open>s.isdigit()\<close>: not empty, and every character a digit (the superscripts count).\<close>

definition py_isdigit :: "string \<Rightarrow> bool" where
  "py_isdigit s =
     (s \<noteq> [] \<and>
      list_all (\<lambda>c. let n = (of_char c :: nat)
                    in (48 \<le> n \<and> n \<le> 57) \<or> n = 178 \<or> n = 179 \<or> n = 185) s)"

section \<open>Unified records\<close>

text \<open>
  The dictionary a parser appends for an accepted candidate. A key a source does not
  set, and a key set to \<^verbatim>\<open>None\<close>, are both \<open>None\<close> here.
\<close>

record book =
  book_title :: string
  book_authors :: string
  book_year :: py_year
  book_source :: string
  book_url :: "string option"
  book_doi :: "string option"
  book_abstract :: string
  book_pdf_url :: "string option"
  book_license_type :: string
  book_relevance_score :: real
  book_document_type :: string
  book_journal :: "string option"
  book_publisher :: "string option"
  book_pages :: "string option"
  book_volume :: "string option"
  book_issue :: "string option"
  book_bibtex_key :: string

text \<open>
  The loop of every parser: a candidate whose processing raises is skipped by the
  \<^verbatim>\<open>except Exception\<close> handler, a candidate the gate rejects adds nothing, an accepted
  one is appended.
\<close>

fun parse_loop :: "('c \<Rightarrow> py_error + book option) \<Rightarrow> book list \<Rightarrow> 'c list \<Rightarrow> book list" where
  "parse_loop process books [] = books"
| "parse_loop process books (c # cs) =
     (case process c of
        Inl e \<Rightarrow> parse_loop process books cs
      | Inr None \<Rightarrow> parse_loop process books cs
      | Inr (Some b) \<Rightarrow> parse_loop process (books @ [b]) cs)"

text \<open>\<^verbatim>\<open>authors[0] if authors else "Unknown"\<close> and \<^verbatim>\<open>', '.join(authors) if authors else 'Unknown'\<close>\<close>

definition first_author_of :: "string list \<Rightarrow> string" where
  "first_author_of authors = (case authors of [] \<Rightarrow> ''Unknown'' | a # _ \<Rightarrow> a)"

definition authors_text :: "string list \<Rightarrow> string" where
  "authors_text authors = (if authors \<noteq> [] then join '', '' authors else ''Unknown'')"

section \<open>arXiv\<close>

text \<open>
  One \<^verbatim>\<open>atom:entry\<close> of the parsed feed. A child element is \<open>None\<close> when
  \<^verbatim>\<open>find\<close> does not find it, and its text is \<open>None\<close> when the element is empty. For
  each \<^verbatim>\<open>atom:author\<close> the name child is given, for each \<^verbatim>\<open>atom:link\<close> its
  \<^verbatim>\<open>type\<close> and \<^verbatim>\<open>href\<close> attributes.
\<close>

record arxiv_entry =
  ax_title :: "string option option"
  ax_author_names :: "string option option list"
  ax_summary :: "string option option"
  ax_published :: "string option option"
  ax_links :: "(string option \<times> string option) list"
  ax_id :: "string option option"

text \<open>
  \<^verbatim>\<open>elem.text.strip() if elem is not None else default\<close>: an element without text raises
  on \<^verbatim>\<open>None.strip\<close>.
\<close>

definition stripped_text :: "string option option \<Rightarrow> string \<Rightarrow> py_error + string" where
  "stripped_text elem dflt =
     (case elem of
        None \<Rightarrow> Inr dflt
      | Some None \<Rightarrow> Inl AttributeError
      | Some (Some t) \<Rightarrow> Inr (py_strip t))"

text \<open>The body of the loop of \<^verbatim>\<open>_parse_arxiv_response\<close> for one entry.\<close>

definition process_arxiv_entry :: "scorer \<Rightarrow> arxiv_entry \<Rightarrow> py_error + book option" where
  "process_arxiv_entry calculate_relevance entry =
     (case stripped_text (ax_title entry) ''No title'' of
        Inl e \<Rightarrow> Inl e
      | Inr title \<Rightarrow>
     (let authors = concat (map (\<lambda>name_elem. case name_elem of None \<Rightarrow> [] | Some t \<Rightarrow> [t])
                              (ax_author_names entry))
      in case stripped_text (ax_summary entry) [] of
        Inl e \<Rightarrow> Inl e
      | Inr abstract \<Rightarrow>
     (let year = (case ax_published entry of
                    None \<Rightarrow> YNone
                  | Some None \<Rightarrow> YNone
                  | Some (Some t) \<Rightarrow>
                      (case py_int_of_str (take 4 t) of Inr y \<Rightarrow> YInt y | Inl e \<Rightarrow> YNone));
          pdf_link = (case filter (\<lambda>link. fst link = Some ''application/pdf'') (ax_links entry) of
                        [] \<Rightarrow> None
                      | link # _ \<Rightarrow> snd link);
          url = (case ax_id entry of None \<Rightarrow> Some [] | Some t \<Rightarrow> t)
      in case calculate_relevance title abstract of
        Inl e \<Rightarrow> Inl e
      | Inr relevance \<Rightarrow>
          if title \<noteq> [] \<and> title \<noteq> ''No title'' \<and> relevance > float_0_1 then
            (let doc_type = classify_document_type title abstract ''arXiv'' []
             in case (case authors of
                        [] \<Rightarrow> Inr ''Unknown''
                      | None # _ \<Rightarrow> Inl AttributeError
                      | Some a # _ \<Rightarrow> Inr a) of
                  Inl e \<Rightarrow> Inl e
                | Inr first_author \<Rightarrow>
                    (let bibtex_key = generate_bibtex_key first_author year title
                     in if list_ex (\<lambda>a. a = None) authors then Inl TypeError
                        else Inr (Some
                          \<lparr>book_title = title,
                           book_authors = authors_text (map the authors),
                           book_year = year,
                           book_source = ''arXiv'',
                           book_url = url,
                           book_doi = None,
                           book_abstract = abstract,
                           book_pdf_url = pdf_link,
                           book_license_type = ''Open Access'',
                           book_relevance_score = relevance,
                           book_document_type = doc_type,
                           book_journal = None,
                           book_publisher = None,
                           book_pages = None,
                           book_volume = None,
                           book_issue = None,
                           book_bibtex_key = bibtex_key\<rparr>)))
          else Inr None)))"

text \<open>\<^verbatim>\<open>_parse_arxiv_response\<close>, from the entries \<^verbatim>\<open>root.findall\<close> returns.\<close>

definition parse_arxiv_response :: "scorer \<Rightarrow> arxiv_entry list \<Rightarrow> book list" where
  "parse_arxiv_response calculate_relevance entries =
     parse_loop (process_arxiv_entry calculate_relevance) [] entries"

section \<open>CrossRef\<close>

text \<open>
  One item of the CrossRef message. Every key is optional. An author is its
  \<^verbatim>\<open>given\<close> and \<^verbatim>\<open>family\<close> names; a publication date is its \<^verbatim>\<open>date-parts\<close> key, a list
  of lists of numbers in which CrossRef may put \<^verbatim>\<open>null\<close>; a license entry is kept as
  its URL.
\<close>

record crossref_item =
  cr_title :: "string list option"
  cr_author :: "(string option \<times> string option) list option"
  cr_published_print :: "int option list list option option"
  cr_published_online :: "int option list list option option"
  cr_abstract :: "string option"
  cr_DOI :: "string option"
  cr_container_title :: "string list option"
  cr_publisher :: "string option"
  cr_page :: "string option"
  cr_volume :: "string option"
  cr_issue :: "string option"
  cr_license :: "string list option"
  cr_type :: "string option"

text \<open>\<^verbatim>\<open>d.get(key, default)\<close> on an optional key.\<close>

definition get_or :: "'a option \<Rightarrow> 'a \<Rightarrow> 'a" where
  "get_or v dflt = (case v of None \<Rightarrow> dflt | Some x \<Rightarrow> x)"

text \<open>\<^verbatim>\<open>published.get('date-parts', [[]])[0]\<close>\<close>

definition first_date_parts :: "int option list list option \<Rightarrow> py_error + int option list" where
  "first_date_parts published =
     (case get_or published [[]] of [] \<Rightarrow> Inl IndexError | parts # _ \<Rightarrow> Inr parts)"

text \<open>The body of the loop of \<^verbatim>\<open>_parse_crossref_response\<close> for one item.\<close>

definition process_crossref_item :: "scorer \<Rightarrow> crossref_item \<Rightarrow> py_error + book option" where
  "process_crossref_item calculate_relevance item =
     (let titles = get_or (cr_title item) [];
          title = (case titles of [] \<Rightarrow> ''No title'' | t # _ \<Rightarrow> t);
          title = (if title \<noteq> [] then join '' '' (split_ws title) else ''No title'');
          authors = concat (map (\<lambda>author.
                       let given = get_or (fst author) []; family = get_or (snd author) []
                       in if family \<noteq> [] then [py_strip (given @ '' '' @ family)] else [])
                     (get_or (cr_author item) []))
      in case (case cr_published_print item of
                 Some published \<Rightarrow> first_date_parts published
               | None \<Rightarrow>
                   (case cr_published_online item of
                      Some published \<Rightarrow> first_date_parts published
                    | None \<Rightarrow> Inr [])) of
        Inl e \<Rightarrow> Inl e
      | Inr date_parts \<Rightarrow>
     (let year = (case date_parts of [] \<Rightarrow> YNone | None # _ \<Rightarrow> YNone | Some y # _ \<Rightarrow> YInt y);
          abstract = get_or (cr_abstract item) [];
          doi = get_or (cr_DOI item) [];
          url = (if doi \<noteq> [] then ''https://doi.org/'' @ doi else []);
          container_titles = get_or (cr_container_title item) [];
          journal = (case container_titles of [] \<Rightarrow> [] | j # _ \<Rightarrow> j);
          publisher = get_or (cr_publisher item) [];
          pages = get_or (cr_page item) [];
          volume = get_or (cr_volume item) [];
          issue = get_or (cr_issue item) [];
          license_info = get_or (cr_license item) [];
          has_license = (length license_info > 0)
      in case calculate_relevance title abstract of
        Inl e \<Rightarrow> Inl e
      | Inr relevance \<Rightarrow>
          if has_license \<and> relevance > float_0_1 \<and> title \<noteq> ''No title'' then
            (let doc_type = classify_document_type title abstract ''CrossRef''
                              (get_or (cr_type item) []);
                 bibtex_key = generate_bibtex_key (first_author_of authors) year title;
                 license_type = (if license_info \<noteq> [] then ''Open Access'' else ''Licensed'')
             in Inr (Some
                  \<lparr>book_title = title,
                   book_authors = authors_text authors,
                   book_year = year,
                   book_source = ''CrossRef'',
                   book_url = Some url,
                   book_doi = Some doi,
                   book_abstract = abstract,
                   book_pdf_url = None,
                   book_license_type = license_type,
                   book_relevance_score = relevance,
                   book_document_type = doc_type,
                   book_journal = Some journal,
                   book_publisher = Some publisher,
                   book_pages = Some pages,
                   book_volume = Some volume,
                   book_issue = Some issue,
                   book_bibtex_key = bibtex_key\<rparr>))
          else Inr None))"

text \<open>\<^verbatim>\<open>_parse_crossref_response\<close>, from the items of the message.\<close>

definition parse_crossref_response :: "scorer \<Rightarrow> crossref_item list \<Rightarrow> book list" where
  "parse_crossref_response calculate_relevance items =
     parse_loop (process_crossref_item calculate_relevance) [] items"

section \<open>Internet Archive and NDLTD\<close>

text \<open>
  The loosely typed fields of these two sources: a string or a list of strings; a year
  that is a number, a string, or a list of numbers and strings.
\<close>

datatype str_or_list = Str string | StrList "string list"

datatype scalar = SInt int | SStr string

datatype year_field = YearNumber int | YearString string | YearList "scalar list"

definition py_int :: "scalar \<Rightarrow> py_error + int" where
  "py_int x = (case x of SInt i \<Rightarrow> Inr i | SStr s \<Rightarrow> py_int_of_str s)"

record ia_doc =
  ia_title :: "string option"
  ia_creator :: "str_or_list option"
  ia_year :: "year_field option"
  ia_identifier :: "string option"
  ia_description :: "str_or_list option"

text \<open>The year normalisation of \<^verbatim>\<open>_parse_internet_archive_response\<close>.\<close>

definition ia_year_value :: "year_field option \<Rightarrow> py_error + py_year" where
  "ia_year_value year =
     (case year of
        None \<Rightarrow> Inr YNone
      | Some (YearNumber i) \<Rightarrow> Inr (YInt i)
      | Some (YearList []) \<Rightarrow> Inr YEmptyList
      | Some (YearList (x # _)) \<Rightarrow> (case py_int x of Inl e \<Rightarrow> Inl e | Inr i \<Rightarrow> Inr (YInt i))
      | Some (YearString s) \<Rightarrow>
          if py_isdigit s
          then (case py_int_of_str s of Inl e \<Rightarrow> Inl e | Inr i \<Rightarrow> Inr (YInt i))
          else Inr YNone)"

text \<open>A creator or author field as a list: a single string becomes a one-element list.\<close>

definition as_list :: "str_or_list option \<Rightarrow> string list" where
  "as_list v = (case v of None \<Rightarrow> [] | Some (Str s) \<Rightarrow> [s] | Some (StrList xs) \<Rightarrow> xs)"

text \<open>The description as one string: a list is joined with spaces.\<close>

definition ia_description_text :: "ia_doc \<Rightarrow> string" where
  "ia_description_text doc =
     (case ia_description doc of
        None \<Rightarrow> []
      | Some (Str s) \<Rightarrow> s
      | Some (StrList xs) \<Rightarrow> join '' '' xs)"

text \<open>The body of the loop of \<^verbatim>\<open>_parse_internet_archive_response\<close> for one document.\<close>

definition process_ia_doc :: "scorer \<Rightarrow> ia_doc \<Rightarrow> py_error + book option" where
  "process_ia_doc calculate_relevance doc =
     (let title = get_or (ia_title doc) [];
          authors = as_list (ia_creator doc)
      in case ia_year_value (ia_year doc) of
        Inl e \<Rightarrow> Inl e
      | Inr year \<Rightarrow>
     (let identifier = get_or (ia_identifier doc) [];
          url = ''https://archive.org/details/'' @ identifier;
          description = ia_description_text doc
      in case calculate_relevance title description of
        Inl e \<Rightarrow> Inl e
      | Inr relevance \<Rightarrow>
     (let doc_type = classify_document_type title description ''Internet Archive'' []
      in if relevance > float_0_3 then
           (let bibtex_key = generate_bibtex_key (first_author_of authors) year title
            in Inr (Some
                 \<lparr>book_title = title,
                  book_authors = authors_text authors,
                  book_year = year,
                  book_source = ''Internet Archive'',
                  book_url = Some url,
                  book_doi = None,
                  book_abstract = description,
                  book_pdf_url = Some (''https://archive.org/download/'' @ identifier @ ''/'' @
                                       identifier @ ''.pdf''),
                  book_license_type = ''Public Domain'',
                  book_relevance_score = relevance,
                  book_document_type = doc_type,
                  book_journal = None,
                  book_publisher = None,
                  book_pages = None,
                  book_volume = None,
                  book_issue = None,
                  book_bibtex_key = bibtex_key\<rparr>))
         else Inr None)))"

text \<open>\<^verbatim>\<open>_parse_internet_archive_response\<close>, from the documents of the response.\<close>

definition parse_internet_archive_response :: "scorer \<Rightarrow> ia_doc list \<Rightarrow> book list" where
  "parse_internet_archive_response calculate_relevance docs =
     parse_loop (process_ia_doc calculate_relevance) [] docs"

record ndltd_doc =
  nd_title :: "str_or_list option"
  nd_author :: "str_or_list option"
  nd_year :: "year_field option"
  nd_description :: "str_or_list option"
  nd_url :: "str_or_list option"
  nd_degree :: "str_or_list option"
  nd_publisher :: "str_or_list option"

text \<open>
  \<^verbatim>\<open>doc.get(k, [''])[0] if isinstance(doc.get(k), list) else doc.get(k, '')\<close>: the first
  element of a list (an empty list raises), the string itself, or the empty string.
\<close>

definition first_or_self :: "str_or_list option \<Rightarrow> py_error + string" where
  "first_or_self v =
     (case v of
        None \<Rightarrow> Inr []
      | Some (Str s) \<Rightarrow> Inr s
      | Some (StrList []) \<Rightarrow> Inl IndexError
      | Some (StrList (x # _)) \<Rightarrow> Inr x)"

text \<open>
  The year normalisation of \<^verbatim>\<open>_parse_ndltd_response\<close>: a string that is not all digits
  stays as it is.
\<close>

definition ndltd_year_value :: "year_field option \<Rightarrow> py_error + py_year" where
  "ndltd_year_value year =
     (case year of
        None \<Rightarrow> Inr YNone
      | Some (YearNumber i) \<Rightarrow> Inr (YInt i)
      | Some (YearList []) \<Rightarrow> Inr YEmptyList
      | Some (YearList (x # _)) \<Rightarrow> (case py_int x of Inl e \<Rightarrow> Inl e | Inr i \<Rightarrow> Inr (YInt i))
      | Some (YearString s) \<Rightarrow>
          if py_isdigit s
          then (case py_int_of_str s of Inl e \<Rightarrow> Inl e | Inr i \<Rightarrow> Inr (YInt i))
          else Inr (YStr s))"

text \<open>The body of the loop of \<^verbatim>\<open>_parse_ndltd_response\<close> for one document.\<close>

definition process_ndltd_doc :: "scorer \<Rightarrow> ndltd_doc \<Rightarrow> py_error + book option" where
  "process_ndltd_doc calculate_relevance doc =
     (case first_or_self (nd_title doc) of
        Inl e \<Rightarrow> Inl e
      | Inr title \<Rightarrow>
     (let authors = as_list (nd_author doc)
      in case ndltd_year_value (nd_year doc) of
        Inl e \<Rightarrow> Inl e
      | Inr year \<Rightarrow>
     (case first_or_self (nd_description doc) of
        Inl e \<Rightarrow> Inl e
      | Inr abstract \<Rightarrow>
     (case first_or_self (nd_url doc) of
        Inl e \<Rightarrow> Inl e
      | Inr url \<Rightarrow>
     (case first_or_self (nd_degree doc) of
        Inl e \<Rightarrow> Inl e
      | Inr degree_type \<Rightarrow>
     (let doc_type = classify_thesis_type title abstract degree_type
      in case first_or_self (nd_publisher doc) of
        Inl e \<Rightarrow> Inl e
      | Inr university \<Rightarrow>
     (case calculate_relevance title abstract of
        Inl e \<Rightarrow> Inl e
      | Inr relevance \<Rightarrow>
          if relevance > float_0_3 then
            (let bibtex_key = generate_bibtex_key (first_author_of authors) year title
             in Inr (Some
                  \<lparr>book_title = title,
                   book_authors = authors_text authors,
                   book_year = year,
                   book_source = ''NDLTD'',
                   book_url = Some url,
                   book_doi = None,
                   book_abstract = abstract,
                   book_pdf_url = None,
                   book_license_type = ''Open Access'',
                   book_relevance_score = relevance,
                   book_document_type = doc_type,
                   book_journal = None,
                   book_publisher = Some university,
                   book_pages = None,
                   book_volume = None,
                   book_issue = None,
                   book_bibtex_key = bibtex_key\<rparr>))
          else Inr None)))))))"

text \<open>\<^verbatim>\<open>_parse_ndltd_response\<close>, from the documents of the response.\<close>

definition parse_ndltd_response :: "scorer \<Rightarrow> ndltd_doc list \<Rightarrow> book list" where
  "parse_ndltd_response calculate_relevance docs =
     parse_loop (process_ndltd_doc calculate_relevance) [] docs"


section \<open>The class as written\<close>

text \<open>
  The names the class \<^verbatim>\<open>TimeSeriesBookScraper\<close> binds with \<^verbatim>\<open>def\<close>, in source order,
  and the attributes \<^verbatim>\<open>__init__\<close> sets on the instance. (What every object inherits
  from \<^verbatim>\<open>object\<close> has names in double underscores and is left out.)
\<close>

definition class_methods :: "string list" where
  "class_methods =
     [''__init__'', ''init_database'', ''search_arxiv'', ''_parse_arxiv_response'',
      ''search_crossref'', ''_parse_crossref_response'', ''search_internet_archive'',
      ''_parse_internet_archive_response'', ''search_ndltd'', ''_parse_ndltd_response'',
      ''_classify_document_type'', ''_classify_thesis_type'', ''_generate_bibtex_key'',
      ''save_to_database'', ''search_database'', ''export_to_bibtex'', ''export_to_endnote'',
      ''export_to_zotero_csv'']"

definition instance_attributes :: "string list" where
  "instance_attributes = [''db_path'', ''session'']"

definition has_attribute :: "string \<Rightarrow> bool" where
  "has_attribute name = (name \<in> set instance_attributes \<or> name \<in> set class_methods)"

text \<open>
  A call \<^verbatim>\<open>self.name(title, abstract)\<close>: the attribute lookup comes first and raises
  \<^verbatim>\<open>AttributeError\<close> when the object has no such attribute; \<open>method\<close> stands for the
  callable the lookup would find.
\<close>

definition call_on_self :: "string \<Rightarrow> scorer \<Rightarrow> scorer" where
  "call_on_self name method title abstract =
     (if has_attribute name then method title abstract else Inl AttributeError)"

text \<open>\<^verbatim>\<open>self._calculate_relevance(title, abstract)\<close> on an instance of the class.\<close>

definition self_calculate_relevance :: "scorer \<Rightarrow> scorer" where
  "self_calculate_relevance method = call_on_self ''_calculate_relevance'' method"

section \<open>The body of the key generator, statement by statement\<close>

text \<open>
  The frame of a call of \<^verbatim>\<open>_generate_bibtex_key\<close>: its parameters and the local
  variables its statements assign.
\<close>

record key_frame =
  fr_first_author :: string
  fr_year :: py_year
  fr_title :: string
  fr_author_parts :: "string list"
  fr_author_surname :: string
  fr_title_words :: "string list"
  fr_title_word :: string
  fr_year_str :: string

text \<open>
  A statement either hands the frame on to the next statement, returns a value from the
  function, or raises. A block runs its statements in order and stops at the first
  return or exception.
\<close>

datatype outcome = Continue key_frame | Returned string | Raised py_error

fun exec_block :: "(key_frame \<Rightarrow> outcome) list \<Rightarrow> key_frame \<Rightarrow> outcome" where
  "exec_block [] fr = Continue fr"
| "exec_block (stmt # stmts) fr =
     (case stmt fr of
        Continue fr' \<Rightarrow> exec_block stmts fr'
      | Returned v \<Rightarrow> Returned v
      | Raised e \<Rightarrow> Raised e)"

text \<open>
  The statements of \<^verbatim>\<open>_generate_bibtex_key\<close> in source order: six assignments and the
  \<^verbatim>\<open>return\<close> of the key, followed by the statements that stand behind the return in
  the same body (the relevance docstring, the keyword table, the scoring loop and the
  \<^verbatim>\<open>return min(score / 10.0, 1.0)\<close>), here \<open>rest\<close>.
\<close>

definition generate_bibtex_key_body ::
  "(key_frame \<Rightarrow> outcome) list \<Rightarrow> (key_frame \<Rightarrow> outcome) list" where
  "generate_bibtex_key_body rest =
     [\<lambda>fr. Continue (fr\<lparr>fr_author_parts := split_ws (fr_first_author fr)\<rparr>),
      \<lambda>fr. Continue (fr\<lparr>fr_author_surname :=
              (if fr_author_parts fr \<noteq> [] then last (fr_author_parts fr) else ''Unknown'')\<rparr>),
      \<lambda>fr. Continue (fr\<lparr>fr_author_surname := filter is_ascii_alpha (fr_author_surname fr)\<rparr>),
      \<lambda>fr. Continue (fr\<lparr>fr_title_words := findall_words False (fr_title fr)\<rparr>),
      \<lambda>fr. Continue (fr\<lparr>fr_title_word :=
              (case fr_title_words fr of w # _ \<Rightarrow> w | [] \<Rightarrow> ''Title'')\<rparr>),
      \<lambda>fr. Continue (fr\<lparr>fr_year_str :=
              (if year_truthy (fr_year fr) then py_str_year (fr_year fr) else ''Unknown'')\<rparr>),
      \<lambda>fr. Returned (fr_author_surname fr @ fr_year_str fr @ fr_title_word fr)] @ rest"

text \<open>
  The frame at entry: the parameters are bound; the locals, which have no value yet, are
  kept empty (each is assigned before it is read).
\<close>

definition key_frame_at_entry :: "string \<Rightarrow> py_year \<Rightarrow> string \<Rightarrow> key_frame" where
  "key_frame_at_entry first_author year title =
     \<lparr>fr_first_author = first_author, fr_year = year, fr_title = title,
      fr_author_parts = [], fr_author_surname = [], fr_title_words = [],
      fr_title_word = [], fr_year_str = []\<rparr>"

section \<open>The relevance scorer of the specification\<close>

text \<open>
  Modelled from the spec: the method \<^verbatim>\<open>_calculate_relevance\<close>, which every parser calls
  and the class does not define. Section 4.1 of the specification: build the lowercase
  text \<open>title + " " + abstract\<close>; for each phrase of the fixed table that occurs in it,
  add its weight once; the score is the smaller of a tenth of the sum and 1. The
  arithmetic is exact here, where Python would round to binary64 after every step; the
  formula serves to say what the call was meant to return and is never handed to a
  parser.
\<close>

definition keyword_weights :: "(string \<times> real) list" where
  "keyword_weights =
     [(''time series'', 3),
      (''temporal analysis'', 5 / 2),
      (''forecasting'', 2),
      (''arima'', 2),
      (''garch'', 2),
      (''stochastic process'', 2),
      (''econometrics'', 3 / 2),
      (''signal processing'', 3 / 2),
      (''time domain'', 3 / 2),
      (''frequency domain'', 3 / 2),
      (''seasonal'', 1),
      (''trend'', 4 / 5),
      (''correlation'', 1 / 2),
      (''regression'', 3 / 10)]"

definition calculate_relevance_spec :: "string \<Rightarrow> string \<Rightarrow> real" where
  "calculate_relevance_spec title abstract =
     (let text = lower (title @ '' '' @ abstract);
          score = foldl (\<lambda>score kw. if str_in (fst kw) text then score + snd kw else score)
                    0 keyword_weights
      in min (score / 10) 1)"

text \<open>
  A scorer for the examples: a callable bound to the name that gives every text the score
  0.5, a value binary64 holds exactly. The class itself binds none.
\<close>

definition example_scorer :: scorer where
  "example_scorer title abstract = Inr (1 / 2)"

text \<open>Candidates for the examples below.\<close>

definition example_crossref_item :: crossref_item where
  "example_crossref_item =
     \<lparr>cr_title = Some [''Forecasting   seasonal time series''],
      cr_author = Some [(Some ''Jane'', Some ''Doe'')],
      cr_published_print = Some (Some [[Some 2020, Some 5]]),
      cr_published_online = None,
      cr_abstract = None,
      cr_DOI = Some ''10.1000/x'',
      cr_container_title = Some [''Journal of Forecasting''],
      cr_publisher = None, cr_page = None, cr_volume = None, cr_issue = None,
      cr_license = Some [''https://creativecommons.org/licenses/by/4.0/''],
      cr_type = Some ''journal-article''\<rparr>"



definition example_crossref_book :: book where
  "example_crossref_book =
     \<lparr>book_title = ''Forecasting seasonal time series'',
      book_authors = ''Jane Doe'',
      book_year = YInt 2020,
      book_source = ''CrossRef'',
      book_url = Some ''https://doi.org/10.1000/x'',
      book_doi = Some ''10.1000/x'',
      book_abstract = [],
      book_pdf_url = None,
      book_license_type = ''Open Access'',
      book_relevance_score = 1 / 2,
      book_document_type = ''Research Article'',
      book_journal = Some ''Journal of Forecasting'',
      book_publisher = Some [],
      book_pages = Some [],
      book_volume = Some [],
      book_issue = Some [],
      book_bibtex_key = ''Doe2020Forecasting''\<rparr>"


section \<open>Substring test and lowercasing: basic facts\<close>

lemma starts_with_iff: "starts_with k t \<longleftrightarrow> (\<exists>s. t = k @ s)"
  by (induction k t rule: starts_with.induct) auto

lemma str_in_iff: "str_in k t \<longleftrightarrow> (\<exists>p s. t = p @ k @ s)"
proof (induction t)
  case Nil
  then show ?case by simp
next
  case (Cons c cs)
  show ?case
  proof
    assume "str_in k (c # cs)"
    then consider "starts_with k (c # cs)" | "str_in k cs" by auto
    then show "\<exists>p s. c # cs = p @ k @ s"
    proof cases
      case 1
      then obtain s where "c # cs = k @ s" by (auto simp: starts_with_iff)
      then have "c # cs = [] @ k @ s" by simp
      then show ?thesis by blast
    next
      case 2
      with Cons.IH obtain p s where "cs = p @ k @ s" by auto
      then have "c # cs = (c # p) @ k @ s" by simp
      then show ?thesis by blast
    qed
  next
    assume "\<exists>p s. c # cs = p @ k @ s"
    then obtain p s where ps: "c # cs = p @ k @ s" by auto
    show "str_in k (c # cs)"
    proof (cases p)
      case Nil
      with ps have "starts_with k (c # cs)" by (auto simp: starts_with_iff)
      then show ?thesis by simp
    next
      case (Cons a p')
      with ps have "cs = p' @ k @ s" by simp
      with Cons.IH have "str_in k cs" by blast
      then show ?thesis by simp
    qed
  qed
qed

lemma str_in_append_left: "str_in k t \<Longrightarrow> str_in k (t @ u)"
proof -
  assume "str_in k t"
  then obtain p s where "t = p @ k @ s" by (auto simp: str_in_iff)
  then have "t @ u = p @ k @ (s @ u)" by simp
  then show ?thesis unfolding str_in_iff by blast
qed

lemma str_in_append_right: "str_in k u \<Longrightarrow> str_in k (t @ u)"
proof -
  assume "str_in k u"
  then obtain p s where "u = p @ k @ s" by (auto simp: str_in_iff)
  then have "t @ u = (t @ p) @ k @ s" by simp
  then show ?thesis unfolding str_in_iff by blast
qed

lemma any_in_append_left: "any_in ks t \<Longrightarrow> any_in ks (t @ u)"
  by (induction ks) (auto intro: str_in_append_left)

lemma any_in_append_right: "any_in ks u \<Longrightarrow> any_in ks (t @ u)"
  by (induction ks) (auto intro: str_in_append_right)

lemma lower_append: "lower (s @ t) = lower s @ lower t"
  by (simp add: lower_def)

section \<open>Classifier precedence\<close>

lemma lower_phd_title: "lower ''PhD Dissertation on ARIMA'' = ''phd dissertation on arima''"
  by code_simp

text \<open>
  C6. Whenever the lowercased text \<open>title + " " + abstract\<close> contains one of the thesis
  keywords, \<^const>\<open>classify_document_type\<close> answers Dissertation if the text also contains
  \<open>phd\<close>, \<open>doctoral\<close> or \<open>doctor\<close>, and Thesis otherwise, whatever the source and the
  native type code are; and the title \<open>PhD Dissertation on ARIMA\<close> yields Dissertation
  for every abstract, source and type code.
\<close>

theorem classify_thesis_precedence:
  "(any_in thesis_keywords (lower (title @ '' '' @ abstract)) \<longrightarrow>
      classify_document_type title abstract source crossref_type =
        (if any_in [''phd'', ''doctoral'', ''doctor''] (lower (title @ '' '' @ abstract))
         then ''Dissertation'' else ''Thesis'')) \<and>
   classify_document_type ''PhD Dissertation on ARIMA'' abstract' source crossref_type =
     ''Dissertation''"
proof
  show "any_in thesis_keywords (lower (title @ '' '' @ abstract)) \<longrightarrow>
      classify_document_type title abstract source crossref_type =
        (if any_in [''phd'', ''doctoral'', ''doctor''] (lower (title @ '' '' @ abstract))
         then ''Dissertation'' else ''Thesis'')"
    by (simp add: classify_document_type_def Let_def)
next
  let ?t = "lower (''PhD Dissertation on ARIMA'' @ '' '' @ abstract')"
  have split: "?t = ''phd dissertation on arima'' @ lower ('' '' @ abstract')"
    by (simp only: lower_append lower_phd_title)
  have "any_in thesis_keywords ''phd dissertation on arima''"
    by code_simp
  then have a: "any_in thesis_keywords ?t"
    unfolding split by (rule any_in_append_left)
  have "any_in [''phd'', ''doctoral'', ''doctor''] ''phd dissertation on arima''"
    by code_simp
  then have b: "any_in [''phd'', ''doctoral'', ''doctor''] ?t"
    unfolding split by (rule any_in_append_left)
  show "classify_document_type ''PhD Dissertation on ARIMA'' abstract' source crossref_type =
     ''Dissertation''"
    using a b by (simp add: classify_document_type_def Let_def)
qed

theorem classify_thesis_precedence_witness:
  "any_in thesis_keywords (lower (''A Handbook: Master Thesis'' @ '' '' @ [])) \<and>
   classify_document_type ''A Handbook: Master Thesis'' [] ''Internet Archive'' ''book'' =
     ''Thesis'' \<and>
   classify_document_type ''PhD Dissertation on ARIMA'' ''A textbook and guide''
     ''Internet Archive'' ''book'' = ''Dissertation''"
proof -
  have h: "any_in thesis_keywords (lower (''A Handbook: Master Thesis'' @ '' '' @ []))"
    by code_simp
  have n: "\<not> any_in [''phd'', ''doctoral'', ''doctor'']
             (lower (''A Handbook: Master Thesis'' @ '' '' @ []))"
    by code_simp
  note c = classify_thesis_precedence
    [of "''A Handbook: Master Thesis''" "[]" "''Internet Archive''" "''book''"
        "''A textbook and guide''"]
  from c h n show ?thesis by simp
qed

section \<open>Thesis-granularity classifier\<close>

text \<open>
  C8, as the code has it. The text searched by \<^const>\<open>classify_thesis_type\<close> is the
  lowercased \<open>title + " " + abstract + " " + degree\<close>: the result is Dissertation when
  that text contains \<open>phd\<close>, \<open>doctoral\<close>, \<open>doctor\<close> or \<open>ph.d\<close>; otherwise Thesis when it
  contains \<open>master\<close>, \<open>ms\<close>, \<open>m.s\<close>, \<open>ma\<close> or \<open>m.a\<close>; otherwise Undergraduate Thesis
  when it contains \<open>bachelor\<close>, \<open>bs\<close>, \<open>b.s\<close>, \<open>ba\<close> or \<open>b.a\<close>; otherwise Thesis. A
  degree string that contains a doctoral keyword gives Dissertation whatever the title
  and abstract are.
\<close>

theorem classify_thesis_type_text:
  "classify_thesis_type title abstract degree_type =
     (if any_in [''phd'', ''doctoral'', ''doctor'', ''ph.d'']
           (lower (title @ '' '' @ abstract @ '' '' @ degree_type)) then ''Dissertation''
      else if any_in [''master'', ''ms'', ''m.s'', ''ma'', ''m.a'']
           (lower (title @ '' '' @ abstract @ '' '' @ degree_type)) then ''Thesis''
      else if any_in [''bachelor'', ''bs'', ''b.s'', ''ba'', ''b.a'']
           (lower (title @ '' '' @ abstract @ '' '' @ degree_type))
           then ''Undergraduate Thesis''
      else ''Thesis'') \<and>
   (any_in [''phd'', ''doctoral'', ''doctor'', ''ph.d''] (lower degree_type) \<longrightarrow>
      classify_thesis_type title abstract degree_type = ''Dissertation'')"
proof
  show "classify_thesis_type title abstract degree_type =
     (if any_in [''phd'', ''doctoral'', ''doctor'', ''ph.d'']
           (lower (title @ '' '' @ abstract @ '' '' @ degree_type)) then ''Dissertation''
      else if any_in [''master'', ''ms'', ''m.s'', ''ma'', ''m.a'']
           (lower (title @ '' '' @ abstract @ '' '' @ degree_type)) then ''Thesis''
      else if any_in [''bachelor'', ''bs'', ''b.s'', ''ba'', ''b.a'']
           (lower (title @ '' '' @ abstract @ '' '' @ degree_type))
           then ''Undergraduate Thesis''
      else ''Thesis'')"
    by (simp only: classify_thesis_type_def Let_def)
next
  show "any_in [''phd'', ''doctoral'', ''doctor'', ''ph.d''] (lower degree_type) \<longrightarrow>
      classify_thesis_type title abstract degree_type = ''Dissertation''"
  proof
    assume d: "any_in [''phd'', ''doctoral'', ''doctor'', ''ph.d''] (lower degree_type)"
    have "lower (title @ '' '' @ abstract @ '' '' @ degree_type) =
            lower (title @ '' '' @ abstract @ '' '') @ lower degree_type"
      by (simp add: lower_def)
    with d have "any_in [''phd'', ''doctoral'', ''doctor'', ''ph.d'']
                   (lower (title @ '' '' @ abstract @ '' '' @ degree_type))"
      by (simp only: any_in_append_right)
    then show "classify_thesis_type title abstract degree_type = ''Dissertation''"
      by (simp only: classify_thesis_type_def Let_def if_True)
  qed
qed

theorem classify_thesis_type_text_witness:
  "any_in [''phd'', ''doctoral'', ''doctor'', ''ph.d''] (lower ''Ph.D.'') \<and>
   classify_thesis_type ''Seasonal models'' ''We study trends'' ''Ph.D.'' = ''Dissertation''"
proof -
  have h: "any_in [''phd'', ''doctoral'', ''doctor'', ''ph.d''] (lower ''Ph.D.'')"
    by code_simp
  from classify_thesis_type_text
         [of "''Seasonal models''" "''We study trends''" "''Ph.D.''"] h
  show ?thesis by blast
qed

text \<open>
  The claim as stated fails: with the degree string \<open>master\<close> fixed, the title alone
  moves the result from Thesis to Dissertation, away from what the degree string says.
\<close>

theorem classify_thesis_type_degree_counterexample:
  "classify_thesis_type ''PhD notes'' [] ''master'' = ''Dissertation'' \<and>
   classify_thesis_type ''Notes'' [] ''master'' = ''Thesis'' \<and>
   thesis_type_by_degree ''master'' = ''Thesis''"
  by code_simp

section \<open>Zotero item types\<close>

text \<open>
  C9. The Item Type of the Zotero entry of a row is read off the fixed table: Research
  Article gives journalArticle, Book gives book, Book Chapter gives bookSection,
  Conference Paper gives conferencePaper, Thesis and Dissertation give thesis, Preprint
  gives preprint, Technical Report gives report, and every other document type gives
  journalArticle. The export keeps one entry per row, in order.
\<close>

theorem zotero_item_type:
  "map_of (zotero_entry row) ''Item Type'' =
     Some (if row_document_type row = ''Research Article'' then ''journalArticle''
           else if row_document_type row = ''Book'' then ''book''
           else if row_document_type row = ''Book Chapter'' then ''bookSection''
           else if row_document_type row = ''Conference Paper'' then ''conferencePaper''
           else if row_document_type row = ''Thesis'' then ''thesis''
           else if row_document_type row = ''Dissertation'' then ''thesis''
           else if row_document_type row = ''Preprint'' then ''preprint''
           else if row_document_type row = ''Technical Report'' then ''report''
           else ''journalArticle'') \<and>
   map (\<lambda>e. map_of e ''Item Type'') (export_to_zotero_rows rows) =
     map (\<lambda>r. Some (dict_get zotero_type_mapping (row_document_type r) ''journalArticle''))
       rows"
  by (simp add: zotero_entry_def export_to_zotero_rows_def dict_get_def zotero_type_mapping_def
      Let_def)

section \<open>Citation keys\<close>

declare runs_between.simps [simp del]

lemma alpha_is_word: "is_ascii_alpha c \<Longrightarrow> is_word_char c"
  by (auto simp: is_ascii_alpha_def is_word_char_def Let_def)

lemma runs_between_Nil: "runs_between sep [] = []"
  by (subst runs_between.simps) simp

lemma runs_between_sep: "sep c \<Longrightarrow> runs_between sep (c # cs) = runs_between sep cs"
  by (subst runs_between.simps, subst (2) runs_between.simps) simp

lemma runs_between_start:
  "\<not> sep c \<Longrightarrow> runs_between sep (c # cs) =
     (c # takeWhile (\<lambda>x. \<not> sep x) cs) # runs_between sep (dropWhile (\<lambda>x. \<not> sep x) cs)"
  by (subst runs_between.simps) simp

lemma at_boundary_alpha_inside:
  assumes "k < length (takeWhile is_ascii_alpha s)"
  shows "\<not> at_boundary True (drop k s)"
proof -
  have ks: "k < length s"
    using assms length_takeWhile_le [of is_ascii_alpha s] by simp
  have "is_ascii_alpha (takeWhile is_ascii_alpha s ! k)"
    using assms by (meson nth_mem set_takeWhileD)
  then have "is_ascii_alpha (s ! k)"
    using assms by (simp add: takeWhile_nth)
  then have "is_word_char (s ! k)" by (rule alpha_is_word)
  moreover have "drop k s = s ! k # drop (Suc k) s"
    using ks by (simp add: Cons_nth_drop_Suc)
  ultimately show ?thesis by (simp add: at_boundary_def)
qed

lemma filter_inside_empty:
  "filter (\<lambda>k. at_boundary True (drop k s)) (rev [3 ..< length (takeWhile is_ascii_alpha s)]) = []"
  by (auto simp: filter_empty_conv at_boundary_alpha_inside)

lemma match_word_here_eq:
  "match_word_here s =
     (if 3 \<le> length (takeWhile is_ascii_alpha s) \<and>
         at_boundary True (dropWhile is_ascii_alpha s)
      then Some (takeWhile is_ascii_alpha s) else None)"
proof (cases "3 \<le> length (takeWhile is_ascii_alpha s)")
  case False
  then have "[3 ..< Suc (length (takeWhile is_ascii_alpha s))] = []" by simp
  with False show ?thesis by (simp add: match_word_here_def)
next
  case True
  let ?n = "length (takeWhile is_ascii_alpha s)"
  have up: "[3 ..< Suc ?n] = [3 ..< ?n] @ [?n]"
    using True by simp
  have d: "drop ?n s = dropWhile is_ascii_alpha s"
    by (simp add: dropWhile_eq_drop)
  have t: "take ?n s = takeWhile is_ascii_alpha s"
    by (simp add: takeWhile_eq_take [symmetric])
  show ?thesis
    using True by (simp add: match_word_here_def Let_def up filter_inside_empty d t)
qed

lemma takeWhile_word_of_alpha:
  assumes "at_boundary True (dropWhile is_ascii_alpha s)"
  shows "takeWhile is_word_char s = takeWhile is_ascii_alpha s \<and>
         dropWhile is_word_char s = dropWhile is_ascii_alpha s"
  using assms
proof (induction s)
  case Nil
  show ?case by simp
next
  case (Cons a s)
  show ?case
  proof (cases "is_ascii_alpha a")
    case True
    with Cons.prems have "at_boundary True (dropWhile is_ascii_alpha s)" by simp
    from Cons.IH [OF this] True alpha_is_word [OF True] show ?thesis by simp
  next
    case False
    with Cons.prems have "\<not> is_word_char a" by (simp add: at_boundary_def)
    with False show ?thesis by simp
  qed
qed

lemma takeWhile_alpha_of_word:
  assumes "list_all is_ascii_alpha (takeWhile is_word_char s)"
  shows "takeWhile is_ascii_alpha s = takeWhile is_word_char s \<and>
         at_boundary True (dropWhile is_ascii_alpha s)"
  using assms
proof (induction s)
  case Nil
  show ?case by (simp add: at_boundary_def)
next
  case (Cons a s)
  show ?case
  proof (cases "is_word_char a")
    case True
    with Cons.prems have a: "is_ascii_alpha a"
      and r: "list_all is_ascii_alpha (takeWhile is_word_char s)" by simp_all
    from Cons.IH [OF r] a True show ?thesis by simp
  next
    case False
    then have "\<not> is_ascii_alpha a" using alpha_is_word by blast
    with False show ?thesis by (simp add: at_boundary_def)
  qed
qed


lemma findall_words_runs:
  "findall_words prev s =
     filter title_word_ok (word_runs (if prev then dropWhile is_word_char s else s))"
proof (induction prev s rule: findall_words.induct)
  case (1 prev)
  show ?case by (simp add: word_runs_def runs_between_Nil)
next
  case (2 prev c cs)
  show ?case
  proof (cases "is_word_char c")
    case False
    then have na: "\<not> is_ascii_alpha c" using alpha_is_word by blast
    then have m: "match_word_here (c # cs) = None" by (simp add: match_word_here_eq)
    have r: "findall_words False cs = filter title_word_ok (word_runs cs)"
    proof (cases prev)
      case True
      then have "at_boundary prev (c # cs)" using False by (simp add: at_boundary_def)
      from "2.IH"(1) [OF this m] False show ?thesis by simp
    next
      case False
      then have "\<not> at_boundary prev (c # cs)" using \<open>\<not> is_word_char c\<close> by (simp add: at_boundary_def)
      from "2.IH"(3) [OF this] \<open>\<not> is_word_char c\<close> show ?thesis by simp
    qed
    have "findall_words prev (c # cs) = findall_words False cs"
      using False m by simp
    moreover have "word_runs (if prev then dropWhile is_word_char (c # cs) else c # cs) = word_runs cs"
      using False by (simp add: word_runs_def runs_between_sep)
    ultimately show ?thesis using r by simp
  next
    case True
    note w = True
    show ?thesis
    proof (cases prev)
      case True
      then have nb: "\<not> at_boundary prev (c # cs)" using w by (simp add: at_boundary_def)
      from "2.IH"(3) [OF nb] w
      have "findall_words True cs = filter title_word_ok (word_runs (dropWhile is_word_char cs))"
        by simp
      then show ?thesis using True nb w by simp
    next
      case False
      then have b: "at_boundary prev (c # cs)" using w by (simp add: at_boundary_def)
      have runs: "word_runs (c # cs) =
          takeWhile is_word_char (c # cs) # word_runs (dropWhile is_word_char cs)"
        using w by (simp add: word_runs_def runs_between_start)
      show ?thesis
      proof (cases "match_word_here (c # cs)")
        case None
        from "2.IH"(1) [OF b None] w
        have ih: "findall_words True cs = filter title_word_ok (word_runs (dropWhile is_word_char cs))"
          by simp
        have "\<not> title_word_ok (takeWhile is_word_char (c # cs))"
        proof
          assume ok: "title_word_ok (takeWhile is_word_char (c # cs))"
          then have a: "list_all is_ascii_alpha (takeWhile is_word_char (c # cs))"
            by (simp add: title_word_ok_def)
          from takeWhile_alpha_of_word [OF a] ok
          have "match_word_here (c # cs) \<noteq> None"
            by (simp add: match_word_here_eq title_word_ok_def)
          with None show False by simp
        qed
        then show ?thesis using False b None ih runs w by simp
      next
        case (Some x)
        then have x: "x = takeWhile is_ascii_alpha (c # cs)"
          and len: "3 \<le> length x"
          and bd: "at_boundary True (dropWhile is_ascii_alpha (c # cs))"
          by (auto simp: match_word_here_eq split: if_splits)
        from takeWhile_word_of_alpha [OF bd]
        have tw: "takeWhile is_word_char (c # cs) = x"
          and dw: "dropWhile is_word_char (c # cs) = dropWhile is_ascii_alpha (c # cs)"
          using x by blast+
        have dr: "drop (length x) (c # cs) = dropWhile is_word_char cs"
          using dw w x by (simp add: dropWhile_eq_drop [symmetric])
        have okx: "title_word_ok x"
          using len x by (simp add: title_word_ok_def list_all_iff) (meson set_takeWhileD)
        from "2.IH"(2) [OF b Some]
        have "findall_words True (drop (length x) (c # cs)) =
            filter title_word_ok (word_runs (dropWhile is_word_char (drop (length x) (c # cs))))"
          by simp
        then have ih: "findall_words True (drop (length x) (c # cs)) =
            filter title_word_ok (word_runs (dropWhile is_word_char cs))"
          by (simp add: dr)
        have "findall_words prev (c # cs) = x # findall_words True (drop (length x) (c # cs))"
          using b Some by simp
        then show ?thesis using False ih runs tw okx w by simp
      qed
    qed
  qed
qed

lemma filter_alpha_Unknown: "filter is_ascii_alpha ''Unknown'' = ''Unknown''"
  by code_simp

text \<open>
  C5, as the code has it. The key is surname, year string and title word, concatenated.
  The surname is the last whitespace-delimited token of the first author with every
  non-letter removed (the outcome may be empty), and \<open>Unknown\<close> when the author string
  has no token at all. The year string is the decimal rendering of a year that is
  present and not zero, and \<open>Unknown\<close> otherwise. The title word is the first maximal
  run of word characters of the title that has at least three characters and consists
  of letters only, and \<open>Title\<close> if there is none. In particular the key of Jane Doe,
  2020, Advances in Forecasting is \<open>Doe2020Advances\<close>.
\<close>

theorem generate_bibtex_key_parts:
  "generate_bibtex_key first_author (year_value year) title =
     (case split_ws first_author of
        [] \<Rightarrow> ''Unknown''
      | t # ts \<Rightarrow> filter is_ascii_alpha (last (t # ts))) @
     (case year of
        None \<Rightarrow> ''Unknown''
      | Some y \<Rightarrow> if y = 0 then ''Unknown'' else py_str_int y) @
     (case filter title_word_ok (word_runs title) of
        [] \<Rightarrow> ''Title''
      | w # _ \<Rightarrow> w) \<and>
   generate_bibtex_key ''Jane Doe'' (year_value (Some 2020)) ''Advances in Forecasting'' =
     ''Doe2020Advances''"
proof
  have words: "findall_words False title = filter title_word_ok (word_runs title)"
    by (simp add: findall_words_runs)
  show "generate_bibtex_key first_author (year_value year) title =
     (case split_ws first_author of
        [] \<Rightarrow> ''Unknown''
      | t # ts \<Rightarrow> filter is_ascii_alpha (last (t # ts))) @
     (case year of
        None \<Rightarrow> ''Unknown''
      | Some y \<Rightarrow> if y = 0 then ''Unknown'' else py_str_int y) @
     (case filter title_word_ok (word_runs title) of
        [] \<Rightarrow> ''Title''
      | w # _ \<Rightarrow> w)"
  proof -
    have surname:
      "filter is_ascii_alpha
         (if split_ws first_author \<noteq> [] then last (split_ws first_author) else ''Unknown'') =
       (case split_ws first_author of
          [] \<Rightarrow> ''Unknown''
        | t # ts \<Rightarrow> filter is_ascii_alpha (last (t # ts)))"
    proof (cases "split_ws first_author")
      case Nil
      then show ?thesis by (simp only: filter_alpha_Unknown list.case if_False simp_thms)
    next
      case (Cons t ts)
      then show ?thesis by simp
    qed
    have yr:
      "(if year_truthy (year_value year) then py_str_year (year_value year) else ''Unknown'') =
       (case year of
          None \<Rightarrow> ''Unknown''
        | Some y \<Rightarrow> if y = 0 then ''Unknown'' else py_str_int y)"
      by (simp add: year_truthy_def py_str_year_def year_value_def split: option.splits)
    show ?thesis
      by (simp only: generate_bibtex_key_def Let_def surname yr words)
  qed
next
  show "generate_bibtex_key ''Jane Doe'' (year_value (Some 2020)) ''Advances in Forecasting'' =
     ''Doe2020Advances''"
    by code_simp
qed

text \<open>
  The claim as stated fails in three places: a last token without letters leaves the
  surname empty instead of \<open>Unknown\<close>; a run of letters that touches a digit is not a
  match of the pattern, so a later word is taken; and the year 0 is rendered as
  \<open>Unknown\<close>.
\<close>

theorem generate_bibtex_key_spec_counterexample:
  "generate_bibtex_key ''J. 123'' (year_value (Some 2020)) ''Advances'' = ''2020Advances'' \<and>
   generateKey_spec ''J. 123'' (Some 2020) ''Advances'' = ''Unknown2020Advances'' \<and>
   generate_bibtex_key ''Jane Doe'' (year_value (Some 2020)) ''abc123 defg'' = ''Doe2020defg'' \<and>
   generateKey_spec ''Jane Doe'' (Some 2020) ''abc123 defg'' = ''Doe2020abc'' \<and>
   generate_bibtex_key ''Jane Doe'' (year_value (Some 0)) ''Advances'' = ''DoeUnknownAdvances'' \<and>
   generateKey_spec ''Jane Doe'' (Some 0) ''Advances'' = ''Doe0Advances''"
  by code_simp

section \<open>Lines of a RIS entry\<close>

text \<open>
  C7, as the code has it, for the strings the exporter emits for one record (each is
  one line of the output unless a field value itself contains a line break). A year
  line \<open>PY\<close> is emitted exactly when the year is present; the last string of an entry is
  \<open>ER  - \<close>; no emitted string is empty; the \<open>UR\<close> and \<open>AB\<close> lines are always emitted,
  also with an empty value; and each of \<open>JO\<close>, \<open>PB\<close>, \<open>VL\<close>, \<open>IS\<close>, \<open>SP\<close>, \<open>DO\<close> is
  emitted exactly when its value is not empty.
\<close>

theorem ris_entry_lines:
  "((\<exists>l \<in> set (ris_lines row). starts_with ''PY  - '' l) \<longleftrightarrow> row_year row \<noteq> None) \<and>
   last (ris_lines row) = ''ER  - '' \<and>
   [] \<notin> set (ris_lines row) \<and>
   ''UR  - '' @ row_url row \<in> set (ris_lines row) \<and>
   ''AB  - '' @ row_abstract row \<in> set (ris_lines row) \<and>
   ((\<exists>l \<in> set (ris_lines row). starts_with ''JO  - '' l) \<longleftrightarrow> row_journal row \<noteq> []) \<and>
   ((\<exists>l \<in> set (ris_lines row). starts_with ''PB  - '' l) \<longleftrightarrow> row_publisher row \<noteq> []) \<and>
   ((\<exists>l \<in> set (ris_lines row). starts_with ''VL  - '' l) \<longleftrightarrow> row_volume row \<noteq> []) \<and>
   ((\<exists>l \<in> set (ris_lines row). starts_with ''IS  - '' l) \<longleftrightarrow> row_issue row \<noteq> []) \<and>
   ((\<exists>l \<in> set (ris_lines row). starts_with ''SP  - '' l) \<longleftrightarrow> row_pages row \<noteq> []) \<and>
   ((\<exists>l \<in> set (ris_lines row). starts_with ''DO  - '' l) \<longleftrightarrow> row_doi row \<noteq> [])"
proof (intro conjI)
  show "(\<exists>l \<in> set (ris_lines row). starts_with ''PY  - '' l) \<longleftrightarrow> row_year row \<noteq> None"
    by (auto simp: ris_lines_def ris_entry_def split: option.splits)
  show "last (ris_lines row) = ''ER  - ''"
    by (simp add: ris_lines_def ris_entry_def)
  show "[] \<notin> set (ris_lines row)"
    by (simp add: ris_lines_def)
  show "''UR  - '' @ row_url row \<in> set (ris_lines row)"
    by (simp add: ris_lines_def ris_entry_def)
  show "''AB  - '' @ row_abstract row \<in> set (ris_lines row)"
    by (simp add: ris_lines_def ris_entry_def)
  show "(\<exists>l \<in> set (ris_lines row). starts_with ''JO  - '' l) \<longleftrightarrow> row_journal row \<noteq> []"
    by (auto simp: ris_lines_def ris_entry_def split: option.splits)
  show "(\<exists>l \<in> set (ris_lines row). starts_with ''PB  - '' l) \<longleftrightarrow> row_publisher row \<noteq> []"
    by (auto simp: ris_lines_def ris_entry_def split: option.splits)
  show "(\<exists>l \<in> set (ris_lines row). starts_with ''VL  - '' l) \<longleftrightarrow> row_volume row \<noteq> []"
    by (auto simp: ris_lines_def ris_entry_def split: option.splits)
  show "(\<exists>l \<in> set (ris_lines row). starts_with ''IS  - '' l) \<longleftrightarrow> row_issue row \<noteq> []"
    by (auto simp: ris_lines_def ris_entry_def split: option.splits)
  show "(\<exists>l \<in> set (ris_lines row). starts_with ''SP  - '' l) \<longleftrightarrow> row_pages row \<noteq> []"
    by (auto simp: ris_lines_def ris_entry_def split: option.splits)
  show "(\<exists>l \<in> set (ris_lines row). starts_with ''DO  - '' l) \<longleftrightarrow> row_doi row \<noteq> []"
    by (auto simp: ris_lines_def ris_entry_def split: option.splits)
qed

lemma ris_lines_example:
  "ris_lines example_row =
     [''TY  - JOUR'', ''TI  - Seasonal ARIMA'', ''PY  - 2020'', ''UR  - '', ''AB  - '',
      ''AU  - Jane Doe'', ''AU  - John Roe'', ''JO  - Journal of Forecasting'', ''ER  - '']"
  by code_simp

theorem ris_entry_lines_witness:
  "row_year example_row \<noteq> None \<and>
   (\<exists>l \<in> set (ris_lines example_row). starts_with ''PY  - '' l) \<and>
   row_journal example_row \<noteq> [] \<and>
   (\<exists>l \<in> set (ris_lines example_row). starts_with ''JO  - '' l) \<and>
   row_doi example_row = [] \<and>
   \<not> (\<exists>l \<in> set (ris_lines example_row). starts_with ''DO  - '' l)"
proof -
  have y: "row_year example_row \<noteq> None" and j: "row_journal example_row \<noteq> []"
    and d: "row_doi example_row = []"
    by (simp_all add: example_row_def)
  from ris_entry_lines [of example_row] y j d show ?thesis by blast
qed

text \<open>
  The claim as stated fails on two rows with empty URL and abstract: the output has no
  blank line between the two entries, and the \<open>UR\<close> and \<open>AB\<close> lines are there with
  nothing behind the tag.
\<close>

theorem export_to_endnote_counterexample:
  "py_split (export_to_endnote [example_row, example_row_2]) [newline] =
     [''TY  - JOUR'', ''TI  - Seasonal ARIMA'', ''PY  - 2020'', ''UR  - '', ''AB  - '',
      ''AU  - Jane Doe'', ''AU  - John Roe'', ''JO  - Journal of Forecasting'', ''ER  - '',
      ''TY  - JOUR'', ''TI  - GARCH notes'', ''PY  - 2021'', ''UR  - '', ''AB  - '',
      ''AU  - Jane Doe'', ''AU  - John Roe'', ''ER  - '']"
  by code_simp

section \<open>The parser loop\<close>

lemma parse_loop_set:
  "set (parse_loop process books cs) =
     set books \<union> {b. \<exists>c \<in> set cs. process c = Inr (Some b)}"
  by (induction cs arbitrary: books) (auto split: sum.splits option.splits)

lemma parse_loop_all_raise:
  assumes "\<And>c. \<exists>e. process c = Inl e"
  shows "parse_loop process books cs = books"
proof (induction cs)
  case Nil
  show ?case by simp
next
  case (Cons c cs)
  from assms obtain e where "process c = Inl e" by blast
  with Cons show ?case by simp
qed

section \<open>The relevance scorer is not there\<close>

lemma no_calculate_relevance: "\<not> has_attribute ''_calculate_relevance''"
  by (simp add: has_attribute_def instance_attributes_def class_methods_def)

lemma self_calculate_relevance_raises:
  "self_calculate_relevance method title abstract = Inl AttributeError"
  by (simp add: self_calculate_relevance_def call_on_self_def no_calculate_relevance)

lemma exec_key_body:
  "exec_block (generate_bibtex_key_body rest) (key_frame_at_entry first_author year title) =
     Returned (generate_bibtex_key first_author year title)"
  by (simp add: generate_bibtex_key_body_def key_frame_at_entry_def generate_bibtex_key_def
      Let_def)

lemma arxiv_entry_raises:
  assumes "\<And>t a. rel t a = Inl AttributeError"
  shows "process_arxiv_entry rel entry = Inl AttributeError"
  using assms
  by (simp add: process_arxiv_entry_def stripped_text_def Let_def
      split: sum.splits option.splits)

lemma crossref_item_raises:
  assumes "\<And>t a. rel t a = Inl AttributeError"
  shows "process_crossref_item rel item = Inl AttributeError \<or>
         (\<forall>rel'. process_crossref_item rel' item = Inl IndexError)"
proof -
  have ie: "\<And>p e. first_date_parts p = Inl e \<Longrightarrow> e = IndexError"
    by (auto simp: first_date_parts_def split: list.splits)
  show ?thesis
    using assms
    by (auto simp: process_crossref_item_def Let_def split: sum.splits option.splits dest: ie)
qed

lemma ia_doc_raises:
  assumes "\<And>t a. rel t a = Inl AttributeError"
  shows "process_ia_doc rel doc = Inl AttributeError \<or>
         (\<forall>rel'. process_ia_doc rel' doc = Inl ValueError)"
proof (cases "ia_year_value (ia_year doc)")
  case (Inl e)
  then have "e = ValueError"
    by (auto simp: ia_year_value_def py_int_def py_int_of_str_def Let_def
        split: option.splits year_field.splits list.splits sum.splits scalar.splits if_splits)
  with Inl show ?thesis by (simp add: process_ia_doc_def Let_def)
next
  case (Inr y)
  with assms show ?thesis by (simp add: process_ia_doc_def Let_def)
qed

lemma ndltd_doc_raises:
  assumes "\<And>t a. rel t a = Inl AttributeError"
  shows "process_ndltd_doc rel doc = Inl AttributeError \<or>
         (\<exists>e. \<forall>rel'. process_ndltd_doc rel' doc = Inl e)"
  using assms
  by (auto simp: process_ndltd_doc_def Let_def split: sum.splits)

section \<open>Example candidates\<close>

lemma example_crossref_processed:
  "process_crossref_item example_scorer example_crossref_item = Inr (Some example_crossref_book)"
  by code_simp


section \<open>The scorer of the specification\<close>

text \<open>
  The scorer the specification describes stays between 0 and 1, gives at least 0.3 to a
  text that contains \<open>time series\<close>, and gives 0 to the empty text.
\<close>

lemma score_foldl_mono:
  assumes "\<forall>kw \<in> set kws. 0 \<le> snd kw"
  shows "(a :: real) \<le>
         foldl (\<lambda>score kw. if str_in (fst kw) text then score + snd kw else score) a kws"
  using assms
proof (induction kws arbitrary: a)
  case Nil
  show ?case by simp
next
  case (Cons kw kws)
  let ?a' = "if str_in (fst kw) text then a + snd kw else a"
  have "a \<le> ?a'" using Cons.prems by simp
  also have "?a' \<le> foldl (\<lambda>score kw. if str_in (fst kw) text then score + snd kw else score) ?a' kws"
    using Cons.prems by (intro Cons.IH) simp
  finally show ?case by simp
qed

lemma keyword_weights_nonneg: "\<forall>kw \<in> set keyword_weights. 0 \<le> snd kw"
  by (simp add: keyword_weights_def)

lemma calculate_relevance_spec_range:
  "0 \<le> calculate_relevance_spec title abstract \<and> calculate_relevance_spec title abstract \<le> 1"
  using score_foldl_mono [OF keyword_weights_nonneg, of 0 "lower (title @ '' '' @ abstract)"]
  by (simp add: calculate_relevance_spec_def Let_def)

lemma calculate_relevance_spec_time_series:
  assumes "str_in ''time series'' (lower (title @ '' '' @ abstract))"
  shows "3 / 10 \<le> calculate_relevance_spec title abstract"
proof -
  let ?text = "lower (title @ '' '' @ abstract)"
  let ?f = "\<lambda>score kw. if str_in (fst kw) ?text then score + snd kw else (score :: real)"
  define rest where "rest = tl keyword_weights"
  have kw: "keyword_weights = (''time series'', 3) # rest"
    by (simp add: rest_def keyword_weights_def)
  have "foldl ?f 0 keyword_weights = foldl ?f 3 rest"
    unfolding kw using assms by simp
  moreover have "\<forall>kw \<in> set rest. 0 \<le> snd kw"
    by (simp add: rest_def keyword_weights_def)
  then have "3 \<le> foldl ?f 3 rest"
    by (rule score_foldl_mono)
  ultimately have "3 \<le> foldl ?f 0 keyword_weights" by simp
  then show ?thesis
    by (simp add: calculate_relevance_spec_def Let_def)
qed

lemma calculate_relevance_spec_empty: "calculate_relevance_spec [] [] = 0"
  by code_simp

section \<open>Relevance scoring on the class as written\<close>

text \<open>
  C1. The claim describes the scorer the code sets out to have; on the class as written
  the call \<^verbatim>\<open>self._calculate_relevance(title, abstract)\<close> raises instead of returning
  a score. At the title \<open>Time series forecasting\<close> and an empty abstract the claim asks
  for 0.5, which is what the scorer of the specification gives.
\<close>

theorem calculate_relevance_call_raises:
  "self_calculate_relevance method ''Time series forecasting'' [] = Inl AttributeError \<and>
   calculate_relevance_spec ''Time series forecasting'' [] = 1 / 2"
proof
  show "self_calculate_relevance method ''Time series forecasting'' [] = Inl AttributeError"
    by (rule self_calculate_relevance_raises)
  show "calculate_relevance_spec ''Time series forecasting'' [] = 1 / 2"
    by code_simp
qed

text \<open>
  C2. The class has no attribute \<^verbatim>\<open>_calculate_relevance\<close>. Whatever statements follow
  the \<^verbatim>\<open>return\<close> in the body of \<^verbatim>\<open>_generate_bibtex_key\<close>, a call runs the six
  assignments and returns the key, so the scoring statements behind the return are never
  executed. A call of \<^verbatim>\<open>self._calculate_relevance\<close> raises \<^verbatim>\<open>AttributeError\<close>; the
  processing of a candidate therefore ends in that exception unless an earlier statement
  of the loop body has already raised, and every parser returns the empty list.
\<close>

theorem relevance_scoring_unreachable:
  "\<not> has_attribute ''_calculate_relevance'' \<and>
   exec_block (generate_bibtex_key_body rest) (key_frame_at_entry first_author year title) =
     Returned (generate_bibtex_key first_author year title) \<and>
   self_calculate_relevance method t a = Inl AttributeError \<and>
   process_arxiv_entry (self_calculate_relevance method) entry = Inl AttributeError \<and>
   (process_crossref_item (self_calculate_relevance method) item = Inl AttributeError \<or>
    (\<forall>rel. process_crossref_item rel item = Inl IndexError)) \<and>
   (process_ia_doc (self_calculate_relevance method) doc = Inl AttributeError \<or>
    (\<forall>rel. process_ia_doc rel doc = Inl ValueError)) \<and>
   (process_ndltd_doc (self_calculate_relevance method) ndoc = Inl AttributeError \<or>
    (\<exists>e. \<forall>rel. process_ndltd_doc rel ndoc = Inl e)) \<and>
   parse_arxiv_response (self_calculate_relevance method) entries = [] \<and>
   parse_crossref_response (self_calculate_relevance method) items = [] \<and>
   parse_internet_archive_response (self_calculate_relevance method) docs = [] \<and>
   parse_ndltd_response (self_calculate_relevance method) ndocs = []"
proof -
  let ?rel = "self_calculate_relevance method"
  have r: "\<And>t a. ?rel t a = Inl AttributeError"
    by (rule self_calculate_relevance_raises)
  have ax: "\<And>c. process_arxiv_entry ?rel c = Inl AttributeError"
    using r by (rule arxiv_entry_raises)
  have cr: "\<And>c. process_crossref_item ?rel c = Inl AttributeError \<or>
                 (\<forall>rel. process_crossref_item rel c = Inl IndexError)"
    using r by (rule crossref_item_raises)
  have ia: "\<And>c. process_ia_doc ?rel c = Inl AttributeError \<or>
                 (\<forall>rel. process_ia_doc rel c = Inl ValueError)"
    using r by (rule ia_doc_raises)
  have nd: "\<And>c. process_ndltd_doc ?rel c = Inl AttributeError \<or>
                 (\<exists>e. \<forall>rel. process_ndltd_doc rel c = Inl e)"
    using r by (rule ndltd_doc_raises)
  have p1: "parse_arxiv_response ?rel entries = []"
    unfolding parse_arxiv_response_def
    by (rule parse_loop_all_raise) (simp add: ax)
  have p2: "parse_crossref_response ?rel items = []"
    unfolding parse_crossref_response_def
    by (rule parse_loop_all_raise) (use cr in blast)
  have p3: "parse_internet_archive_response ?rel docs = []"
    unfolding parse_internet_archive_response_def
    by (rule parse_loop_all_raise) (use ia in blast)
  have p4: "parse_ndltd_response ?rel ndocs = []"
    unfolding parse_ndltd_response_def
    by (rule parse_loop_all_raise) (use nd in blast)
  show ?thesis
    using no_calculate_relevance exec_key_body [of rest first_author year title]
      r [of t a] ax [of entry] cr [of item] ia [of doc] nd [of ndoc] p1 p2 p3 p4
    by blast
qed

section \<open>Acceptance gates\<close>


lemma crossref_accepted:
  assumes "process_crossref_item rel item = Inr (Some b)"
  shows "get_or (cr_license item) [] \<noteq> [] \<and> book_title b \<noteq> ''No title'' \<and>
         rel (book_title b) (book_abstract b) = Inr (book_relevance_score b) \<and>
         book_relevance_score b > float_0_1 \<and>
         book_license_type b = ''Open Access''"
  using assms
  by (auto simp: process_crossref_item_def Let_def
      split: sum.splits option.splits if_splits)






lemma example_crossref_parsed:
  "parse_crossref_response example_scorer [example_crossref_item] = [example_crossref_book]"
  by (simp add: parse_crossref_response_def example_crossref_processed)



text \<open>
  C4. A CrossRef item whose license list is empty or absent yields no record, whatever
  scorer is bound and whatever the other fields are; and a record is assembled from an
  item only if its license list is not empty, its relevance score exceeds 0.1 and its
  title is not the placeholder \<open>No title\<close>.
\<close>

theorem crossref_gate:
  "(get_or (cr_license item) [] = [] \<longrightarrow>
      process_crossref_item rel item \<noteq> Inr (Some b) \<and>
      parse_crossref_response rel [item] = []) \<and>
   (process_crossref_item rel item = Inr (Some b) \<longrightarrow>
      get_or (cr_license item) [] \<noteq> [] \<and>
      rel (book_title b) (book_abstract b) = Inr (book_relevance_score b) \<and>
      book_relevance_score b > float_0_1 \<and>
      book_title b \<noteq> ''No title'')"
proof (intro conjI impI)
  assume e: "get_or (cr_license item) [] = []"
  then have none: "\<And>b'. process_crossref_item rel item \<noteq> Inr (Some b')"
    using crossref_accepted [of rel item] by blast
  then show "process_crossref_item rel item \<noteq> Inr (Some b)" .
  show "parse_crossref_response rel [item] = []"
    using none by (simp add: parse_crossref_response_def split: sum.splits option.splits)
next
  assume a: "process_crossref_item rel item = Inr (Some b)"
  from crossref_accepted [OF a]
  show "get_or (cr_license item) [] \<noteq> []"
    and "rel (book_title b) (book_abstract b) = Inr (book_relevance_score b)"
    and "book_relevance_score b > float_0_1"
    and "book_title b \<noteq> ''No title''"
    by blast+
qed

theorem crossref_gate_witness:
  "get_or (cr_license (example_crossref_item\<lparr>cr_license := Some []\<rparr>)) [] = [] \<and>
   parse_crossref_response example_scorer [example_crossref_item\<lparr>cr_license := Some []\<rparr>] = [] \<and>
   process_crossref_item example_scorer example_crossref_item = Inr (Some example_crossref_book) \<and>
   get_or (cr_license example_crossref_item) [] \<noteq> [] \<and>
   book_relevance_score example_crossref_book > float_0_1 \<and>
   book_title example_crossref_book \<noteq> ''No title''"
proof -
  have e: "get_or (cr_license (example_crossref_item\<lparr>cr_license := Some []\<rparr>)) [] = []"
    by (simp add: get_or_def)
  from crossref_gate
    [where item = "example_crossref_item\<lparr>cr_license := Some []\<rparr>" and rel = example_scorer] e
  have p: "parse_crossref_response example_scorer
             [example_crossref_item\<lparr>cr_license := Some []\<rparr>] = []"
    by blast
  from crossref_gate
    [where item = example_crossref_item and rel = example_scorer and b = example_crossref_book]
    example_crossref_processed
  have q: "get_or (cr_license example_crossref_item) [] \<noteq> [] \<and>
           book_relevance_score example_crossref_book > float_0_1 \<and>
           book_title example_crossref_book \<noteq> ''No title''"
    by blast
  from e p q example_crossref_processed show ?thesis by blast
qed

text \<open>
  C10. Every record assembled from CrossRef carries the license type \<open>Open Access\<close>,
  never \<open>Licensed\<close>: the gate has already required a license list that is not empty.
\<close>

theorem crossref_license_type:
  "\<forall>b \<in> set (parse_crossref_response rel items).
     book_license_type b = ''Open Access'' \<and> book_license_type b \<noteq> ''Licensed''"
proof
  fix b
  assume "b \<in> set (parse_crossref_response rel items)"
  then obtain item where "process_crossref_item rel item = Inr (Some b)"
    by (auto simp: parse_crossref_response_def parse_loop_set)
  from crossref_accepted [OF this] have "book_license_type b = ''Open Access''"
    by blast
  then show "book_license_type b = ''Open Access'' \<and> book_license_type b \<noteq> ''Licensed''"
    by simp
qed

theorem crossref_license_type_witness:
  "parse_crossref_response example_scorer [example_crossref_item] = [example_crossref_book] \<and>
   book_license_type example_crossref_book = ''Open Access'' \<and>
   book_license_type example_crossref_book \<noteq> ''Licensed''"
proof -
  from crossref_license_type [of example_scorer "[example_crossref_item]"]
  have "book_license_type example_crossref_book = ''Open Access'' \<and>
        book_license_type example_crossref_book \<noteq> ''Licensed''"
    by (simp add: example_crossref_parsed)
  with example_crossref_parsed show ?thesis by blast
qed

end
